theory Spec2Isabelle
  imports Complex_Main
begin

section \<open>Configuration (config.py)\<close>

text \<open>
  Timestamps are \<open>pd.Timestamp\<close> values, modelled by their nanosecond count since the
  epoch (time-zone naive, as \<open>pd.Timestamp.now()\<close> and \<open>pd.Timestamp("1970-01-01")\<close>
  are). Python's integers are unbounded, so the count is an \<open>int\<close>.
\<close>

type_synonym timestamp = int

definition ns_per_s :: int where
  "ns_per_s = 1000000000"

definition ns_per_day :: int where
  "ns_per_day = 86400 * ns_per_s"

definition DATA_DIR :: string where
  "DATA_DIR = ''/opt/coomep/data''"

definition FROM_FIRST_TS :: int where
  "FROM_FIRST_TS = 4"


definition INSERTS_PER_BATCH :: nat where
  "INSERTS_PER_BATCH = 43200"

definition CASSANDRA_KEYSPACE :: string where
  "CASSANDRA_KEYSPACE = ''test''"

definition TBL_POWER :: string where
  "TBL_POWER = ''power''"

definition TBL_RAW_P1 :: string where
  "TBL_RAW_P1 = ''raw_p1''"

definition TBL_RAW_PV :: string where
  "TBL_RAW_PV = ''raw_pv''"

definition TBL_LAST_TS :: string where
  "TBL_LAST_TS = ''last_ts''"

section \<open>Time and text helpers of the Python runtime\<close>

text \<open>\<open>pd.Timedelta(days=n)\<close>.\<close>

definition timedelta_days :: "int \<Rightarrow> int" where
  "timedelta_days n = n * ns_per_day"

text \<open>\<open>ts.floor('s')\<close>: the timestamp cut down to its whole second.\<close>

definition floor_s :: "timestamp \<Rightarrow> timestamp" where
  "floor_s t = t - t mod ns_per_s"

text \<open>
  \<open>date.year\<close>, \<open>date.month\<close>, \<open>date.day\<close> of a timestamp: the proleptic Gregorian
  date of its day number (days since 1970-01-01), by the usual era arithmetic.
\<close>

definition civil_from_days :: "int \<Rightarrow> int \<times> int \<times> int" where
  "civil_from_days z0 =
     (let z = z0 + 719468;
          era = z div 146097;
          doe = z - era * 146097;
          yoe = (doe - doe div 1460 + doe div 36524 - doe div 146096) div 365;
          y = yoe + era * 400;
          doy = doe - (365 * yoe + yoe div 4 - yoe div 100);
          mp = (5 * doy + 2) div 153;
          d = doy - (153 * mp + 2) div 5 + 1;
          m = (if mp < 10 then mp + 3 else mp - 9)
      in (if m \<le> 2 then y + 1 else y, m, d))"

definition ymd :: "timestamp \<Rightarrow> int \<times> int \<times> int" where
  "ymd t = civil_from_days (t div ns_per_day)"

text \<open>\<open>str(n)\<close> for an integer, and the format \<open>{n:02}\<close> (zero padded to width two).\<close>

fun str_nat :: "nat \<Rightarrow> string" where
  "str_nat n =
     (if n < 10 then [''0123456789'' ! n]
      else str_nat (n div 10) @ [''0123456789'' ! (n mod 10)])"

declare str_nat.simps [simp del]

definition str_int :: "int \<Rightarrow> string" where
  "str_int i = (if i < 0 then CHR ''-'' # str_nat (nat (- i)) else str_nat (nat i))"

definition fmt02 :: "int \<Rightarrow> string" where
  "fmt02 i = (let s = str_int i in replicate (2 - length s) CHR ''0'' @ s)"

text \<open>\<open>sep.join(xs)\<close>.\<close>

fun join :: "string \<Rightarrow> string list \<Rightarrow> string" where
  "join sep [] = []"
| "join sep [x] = x"
| "join sep (x # y # ys) = x @ sep @ join sep (y # ys)"

section \<open>Values and errors\<close>

text \<open>
  The Python values that reach the query builders: a \<open>str\<close>, a \<open>list\<close> of \<open>str\<close>, a
  \<open>pd.Timestamp\<close> (the one kind here with an \<open>isoformat\<close> attribute), a float (\<open>None\<close> is
  NaN; the reals of the meters are taken as exact rationals, rounding is not modelled),
  an \<open>int\<close> and a \<open>bool\<close>.
\<close>

datatype pyval =
    Str string
  | StrList "string list"
  | Timestamp timestamp
  | Float "rat option"
  | Integer int
  | Bool bool

datatype py_error =
    UnboundLocalError
  | AttributeError
  | ZeroDivisionError
  | ValueError
  | TypeError
  | KeyError
  | SSHException

section \<open>py\_to\_cassandra.py\<close>

text \<open>
  \<open>get_right_format\<close>. The loop keeps \<open>res\<close> and the local variable \<open>v\<close>, which only the
  inner loop over a list binds (\<open>None\<close>: not bound yet). The branches for a value with
  \<open>isoformat\<close> and for any other value read \<open>v\<close>, not \<open>val\<close>: unbound, that raises
  \<open>UnboundLocalError\<close>; bound, \<open>v\<close> is a \<open>str\<close>, which has no \<open>isoformat\<close>
  (\<open>AttributeError\<close>) and whose \<open>str(v)\<close> is itself.
\<close>

definition quote :: "string \<Rightarrow> string" where
  "quote s = [CHR 0x27] @ s @ [CHR 0x27]"

fun get_right_format_loop ::
  "pyval list \<Rightarrow> string list \<Rightarrow> string option \<Rightarrow> py_error + string list" where
  "get_right_format_loop [] res v = Inr res"
| "get_right_format_loop (Str s # vals) res v =
     get_right_format_loop vals (res @ [quote s]) v"
| "get_right_format_loop (StrList xs # vals) res v =
     get_right_format_loop vals
       (res @ [butlast (''['' @ concat (map (\<lambda>x. quote x @ '','') xs)) @ '']''])
       (if xs = [] then v else Some (last xs))"
| "get_right_format_loop (Timestamp t # vals) res v =
     (case v of None \<Rightarrow> Inl UnboundLocalError | Some s \<Rightarrow> Inl AttributeError)"
| "get_right_format_loop (val # vals) res v =
     (case v of None \<Rightarrow> Inl UnboundLocalError
      | Some s \<Rightarrow> get_right_format_loop vals (res @ [s]) v)"

definition get_right_format :: "pyval list \<Rightarrow> py_error + string list" where
  "get_right_format values = get_right_format_loop values [] None"

text \<open>\<open>get_ordering\<close>; the dict is the list of its items in insertion order.\<close>

definition get_ordering :: "(string \<times> string) list \<Rightarrow> string" where
  "get_ordering order_items =
     (if length order_items > 0
      then butlast (''WITH CLUSTERING ORDER BY (''
             @ concat (map (\<lambda>(col_name, ordering_type). col_name @ '' '' @ ordering_type @ '','')
                 order_items)) @ '')''
      else '''')"

definition get_insert_query ::
  "string \<Rightarrow> string \<Rightarrow> string list \<Rightarrow> pyval list \<Rightarrow> py_error + string" where
  "get_insert_query keyspace table columns values =
     (case get_right_format values of
        Inl e \<Rightarrow> Inl e
      | Inr fs \<Rightarrow>
          Inr (''INSERT INTO '' @ keyspace @ ''.'' @ table @ '' ('' @ join '','' columns @ '') ''
               @ ''VALUES ('' @ join '','' fs @ '');''))"

text \<open>The text \<open>create_table\<close> hands to \<open>SESSION.execute\<close>.\<close>

definition create_table ::
  "string \<Rightarrow> string \<Rightarrow> string list \<Rightarrow> string list \<Rightarrow> string list \<Rightarrow> (string \<times> string) list
     \<Rightarrow> string" where
  "create_table keyspace table_name columns primary_keys clustering_keys order_items =
     ''CREATE TABLE IF NOT EXISTS '' @ keyspace @ ''.'' @ table_name @ '' ''
     @ ''('' @ join '','' columns @ '', ''
     @ ''PRIMARY KEY (('' @ join '','' primary_keys
     @ (if length clustering_keys \<noteq> 0 then '','' @ join '','' clustering_keys else '''') @ ''))''
     @ get_ordering order_items @ '');''"

text \<open>
  The central store as the sync engine sees it: the watermark table \<open>last_ts\<close> (one
  timestamp per \<open>home_id\<close>) and the texts handed to \<open>SESSION.execute\<close>, oldest first.
\<close>

record store =
  last_ts_tbl :: "string \<rightharpoonup> timestamp"
  executed :: "string list"

definition execute :: "string \<Rightarrow> store \<Rightarrow> store" where
  "execute query st = st\<lparr>executed := executed st @ [query]\<rparr>"

definition batch_query :: "string list \<Rightarrow> string" where
  "batch_query queries = ''BEGIN BATCH '' @ join '' '' queries @ '' APPLY BATCH;''"

text \<open>
  \<open>batch_insert_query\<close>: the loop over the rows of \<open>df\<close> (\<open>df.iloc[i].values\<close>, in order),
  with the index \<open>i\<close>, the pending \<open>queries\<close> and the batch size \<open>n\<close>; it returns the
  queries still pending when the rows end. A row whose formatting raises ends the loop
  with that error; the batches sent before stay sent.
\<close>

fun batch_insert_loop ::
  "nat \<Rightarrow> string \<Rightarrow> string \<Rightarrow> string list \<Rightarrow> pyval list list \<Rightarrow> nat \<Rightarrow> string list \<Rightarrow> store
     \<Rightarrow> (py_error + string list) \<times> store" where
  "batch_insert_loop n keyspace table columns [] i queries st = (Inr queries, st)"
| "batch_insert_loop n keyspace table columns (row # rows) i queries st =
     (case get_insert_query keyspace table columns row of
        Inl e \<Rightarrow> (Inl e, st)
      | Inr q \<Rightarrow>
          if n = 0 then (Inl ZeroDivisionError, st)
          else if (i + 1) mod n = 0
          then batch_insert_loop n keyspace table columns rows (i + 1) []
                 (execute (batch_query (queries @ [q])) st)
          else batch_insert_loop n keyspace table columns rows (i + 1) (queries @ [q]) st)"

definition batch_insert_query_n ::
  "nat \<Rightarrow> string \<Rightarrow> string \<Rightarrow> string list \<times> pyval list list \<Rightarrow> store
     \<Rightarrow> (py_error + unit) \<times> store" where
  "batch_insert_query_n n keyspace table df st =
     (case batch_insert_loop n keyspace table (fst df) (snd df) 0 [] st of
        (Inl e, st') \<Rightarrow> (Inl e, st')
      | (Inr queries, st') \<Rightarrow>
          if queries \<noteq> [] then (Inr (), execute (batch_query queries) st') else (Inr (), st'))"

definition batch_insert_query ::
  "string \<Rightarrow> string \<Rightarrow> string list \<times> pyval list list \<Rightarrow> store \<Rightarrow> (py_error + unit) \<times> store" where
  "batch_insert_query keyspace table df st =
     batch_insert_query_n INSERTS_PER_BATCH keyspace table df st"

text \<open>
  The two writes of the watermark table. \<open>ptc.update_query(CASSANDRA_KEYSPACE, TBL_LAST_TS,
  ["timestamp"], [ts], "home_id = '...'")\<close> formats nothing through \<open>get_right_format\<close>; it
  is taken by its effect on the table: an UPDATE writes the row of that key and creates it
  when absent. \<open>ptc.insert_query\<close> builds its text with \<open>get_insert_query\<close> first.
\<close>

definition update_query_last_ts :: "string \<Rightarrow> timestamp \<Rightarrow> store \<Rightarrow> store" where
  "update_query_last_ts h ts st = st\<lparr>last_ts_tbl := (last_ts_tbl st)(h \<mapsto> ts)\<rparr>"

definition insert_query_last_ts :: "string \<Rightarrow> timestamp \<Rightarrow> store \<Rightarrow> (py_error + unit) \<times> store" where
  "insert_query_last_ts h ts st =
     (case get_insert_query CASSANDRA_KEYSPACE TBL_LAST_TS [''home_id'', ''timestamp'']
             [Str h, Timestamp ts] of
        Inl e \<Rightarrow> (Inl e, st)
      | Inr query \<Rightarrow> (Inr (), execute query (st\<lparr>last_ts_tbl := (last_ts_tbl st)(h \<mapsto> ts)\<rparr>)))"

section \<open>sync\_homewizard.py\<close>

text \<open>
  A day file as \<open>pd.read_csv\<close> gives it (no \<open>parse_dates\<close>): the name of its first column,
  which holds the timestamps as text (\<open>timestamp\<close> when the header names it so,
  \<open>Unnamed: 0\<close> for a header that leaves it blank, as \<open>save_to_csv\<close> writes it after
  \<open>reindex\<close>), the names of its numeric columns other than \<open>active_power_w\<close> (none of them
  \<open>timestamp\<close>), and its rows in file order. A frame is the list of its rows, each with its
  index label; \<open>read_csv\<close> labels the rows \<open>0, 1, 2, ...\<close>.
\<close>

record csv_row =
  csv_timestamp :: string
  csv_active_power_w :: "rat option"
  csv_channels :: "rat option list"

record day_file =
  timestamp_name :: string
  channel_names :: "string list"
  file_rows :: "csv_row list"

record raw_row =
  timestamp :: string
  active_power_w :: "rat option"
  channels :: "rat option list"
  home_id :: string
  day :: string

record raw_frame =
  columns :: "string list"
  rows :: "(nat \<times> raw_row) list"

record power_row =
  p_home_id :: string
  p_day :: string
  p_timestamp :: string
  p_cons :: "rat option"
  p_prod :: "rat option"
  p_tot :: "rat option"

text \<open>
  The remote site behind an open SFTP session: the day files by path (\<open>None\<close>:
  \<open>sftp.stat\<close> raises \<open>FileNotFoundError\<close>), and what \<open>get_available_dates\<close> reads off the
  directory listing.
\<close>

record sftp =
  files :: "string \<Rightarrow> day_file option"
  available_dates :: "timestamp list"

definition filename :: "timestamp \<Rightarrow> string \<Rightarrow> string \<Rightarrow> string" where
  "filename date h data_type =
     (case ymd date of (y, m, d) \<Rightarrow>
        str_int y @ ''_'' @ fmt02 m @ ''_'' @ fmt02 d @ ''_'' @ h @ ''_'' @ data_type @ ''.csv'')"

definition remote_path :: "timestamp \<Rightarrow> string \<Rightarrow> string \<Rightarrow> string" where
  "remote_path date h data_type =
     (case ymd date of (y, m, d) \<Rightarrow>
        DATA_DIR @ ''/'' @ str_int y @ ''/'' @ str_int m @ ''/'' @ filename date h data_type)"

definition day_label :: "timestamp \<Rightarrow> string" where
  "day_label date = (case ymd date of (y, m, d) \<Rightarrow> str_int y @ ''-'' @ str_int m @ ''-'' @ str_int d)"

text \<open>
  The frame \<open>sync_files\<close> builds from the file it fetched: \<open>home_id\<close> and \<open>day\<close> set on
  every row. In a classic sync it then evaluates \<open>df[df['timestamp'] >= date]\<close>: without a
  column of that name \<open>df['timestamp']\<close> raises \<open>KeyError\<close>; with it, the column is text
  and comparing a \<open>str\<close> with a \<open>pd.Timestamp\<close> raises \<open>TypeError\<close> as soon as there is a
  row to compare; on a frame without rows the mask is empty and so is the result.
\<close>

definition read_frame :: "string \<Rightarrow> timestamp \<Rightarrow> bool \<Rightarrow> day_file \<Rightarrow> py_error + raw_frame" where
  "read_frame h date classic_sync f =
     (let df = \<lparr>columns = [timestamp_name f, ''active_power_w''] @ channel_names f
                           @ [''home_id'', ''day''],
                 rows = map (\<lambda>(i, r). (i, \<lparr>timestamp = csv_timestamp r,
                                             active_power_w = csv_active_power_w r,
                                             channels = csv_channels r,
                                             home_id = h, day = day_label date\<rparr>))
                          (enumerate 0 (file_rows f))\<rparr>
      in if classic_sync
         then (if ''timestamp'' \<notin> set (columns df) then Inl KeyError
               else if rows df \<noteq> [] then Inl TypeError
               else Inr df)
         else Inr df)"

text \<open>\<open>df.columns\<close> and \<open>df.iloc[i].values\<close> of a raw frame, as the batch loader reads them.\<close>

definition raw_values :: "raw_frame \<Rightarrow> string list \<times> pyval list list" where
  "raw_values df =
     (columns df,
      map (\<lambda>(i, r). [Str (timestamp r), Float (active_power_w r)] @ map Float (channels r)
                       @ [Str (home_id r), Str (day r)]) (rows df))"

definition sync_files ::
  "sftp \<Rightarrow> string \<Rightarrow> timestamp \<Rightarrow> string \<Rightarrow> string \<Rightarrow> bool \<Rightarrow> store
     \<Rightarrow> (py_error + raw_frame) \<times> store" where
  "sync_files conn h date data_type table classic_sync st =
     (case files conn (remote_path date h data_type) of
        None \<Rightarrow> (Inl UnboundLocalError, st)
      | Some f \<Rightarrow>
          (case read_frame h date classic_sync f of
             Inl e \<Rightarrow> (Inl e, st)
           | Inr df \<Rightarrow>
               (case batch_insert_query CASSANDRA_KEYSPACE table (raw_values df) st of
                  (Inl e, st') \<Rightarrow> (Inl e, st')
                | (Inr u, st') \<Rightarrow> (Inr df, st'))))"

text \<open>
  \<open>check_last_ts\<close>; \<open>last_ts\<close> is \<open>None\<close> for the default argument, and a \<open>pd.Timestamp\<close> is
  always true.
\<close>

definition check_last_ts ::
  "string \<Rightarrow> timestamp \<Rightarrow> timestamp option \<Rightarrow> store \<Rightarrow> (py_error + unit) \<times> store" where
  "check_last_ts h new_ts last_ts st =
     (case last_ts of
        Some l \<Rightarrow>
          if new_ts > l then (Inr (), update_query_last_ts h (floor_s new_ts) st) else (Inr (), st)
      | None \<Rightarrow> insert_query_last_ts h (floor_s new_ts) st)"

text \<open>\<open>pd.date_range(start_date, end_date)\<close>: one timestamp a day, from the start on.\<close>

definition date_range :: "timestamp \<Rightarrow> timestamp \<Rightarrow> timestamp list" where
  "date_range start_date end_date =
     (if end_date < start_date then []
      else map (\<lambda>k. start_date + int k * ns_per_day)
             [0..<nat ((end_date - start_date) div ns_per_day + 1)])"

text \<open>
  The power rows of one day. \<open>p1["timestamp"]\<close> raises \<open>KeyError\<close> when the frame has no
  column of that name. \<open>pd.DataFrame({...})\<close> takes the index of \<open>p1\<close>, so there is
  one row per row of \<open>p1\<close>; assigning the series \<open>pv["active_power_w"] * -1\<close> to a column
  aligns it on the index labels, and a label \<open>pv\<close> lacks gives NaN. A sum with NaN is
  NaN.
\<close>

definition nan_add :: "rat option \<Rightarrow> rat option \<Rightarrow> rat option" where
  "nan_add a b = (case a of None \<Rightarrow> None | Some x \<Rightarrow> (case b of None \<Rightarrow> None | Some y \<Rightarrow> Some (x + y)))"

definition nan_neg :: "rat option \<Rightarrow> rat option" where
  "nan_neg a = (case a of None \<Rightarrow> None | Some x \<Rightarrow> Some (x * (- 1)))"

definition final_df :: "string \<Rightarrow> raw_frame \<Rightarrow> py_error + (nat \<times> power_row) list" where
  "final_df h p1 =
     (if ''timestamp'' \<notin> set (columns p1) then Inl KeyError
      else Inr (map (\<lambda>(i, r). (i, \<lparr>p_home_id = h, p_day = day r, p_timestamp = timestamp r,
                                    p_cons = active_power_w r, p_prod = Some 0,
                                    p_tot = active_power_w r\<rparr>)) (rows p1)))"

definition series_at :: "raw_frame \<Rightarrow> nat \<Rightarrow> rat option" where
  "series_at pv i = (case map_of (rows pv) i of None \<Rightarrow> None | Some r \<Rightarrow> active_power_w r)"

definition final_df_pv :: "(nat \<times> power_row) list \<Rightarrow> raw_frame \<Rightarrow> (nat \<times> power_row) list" where
  "final_df_pv df pv =
     map (\<lambda>(i, r). (i, r\<lparr>p_prod := nan_neg (series_at pv i),
                           p_tot := nan_add (p_cons r) (nan_neg (series_at pv i))\<rparr>)) df"

definition power_values :: "(nat \<times> power_row) list \<Rightarrow> string list \<times> pyval list list" where
  "power_values df =
     ([''home_id'', ''day'', ''timestamp'', ''p_cons'', ''p_prod'', ''p_tot''],
      map (\<lambda>(i, r). [Str (p_home_id r), Str (p_day r), Str (p_timestamp r),
                       Float (p_cons r), Float (p_prod r), Float (p_tot r)]) df)"

text \<open>The loop of \<open>sync_dates\<close> over the days, then the function.\<close>

fun sync_dates_loop ::
  "sftp \<Rightarrow> string \<Rightarrow> bool \<Rightarrow> bool \<Rightarrow> timestamp list \<Rightarrow> store \<Rightarrow> (py_error + unit) \<times> store" where
  "sync_dates_loop conn h has_pv classic_sync [] st = (Inr (), st)"
| "sync_dates_loop conn h has_pv classic_sync (date # dates) st =
     (case sync_files conn h date ''p1'' TBL_RAW_P1 classic_sync st of
        (Inl e, st1) \<Rightarrow> (Inl e, st1)
      | (Inr p1, st1) \<Rightarrow>
          (case final_df h p1 of
             Inl e \<Rightarrow> (Inl e, st1)
           | Inr df0 \<Rightarrow>
               (case (if has_pv
                      then (case sync_files conn h date ''pv'' TBL_RAW_PV classic_sync st1 of
                              (Inl e, st2) \<Rightarrow> (Inl e, st2)
                            | (Inr pv, st2) \<Rightarrow> (Inr (final_df_pv df0 pv), st2))
                      else (Inr df0, st1)) of
                  (Inl e, st2) \<Rightarrow> (Inl e, st2)
                | (Inr df, st2) \<Rightarrow>
                    (case batch_insert_query CASSANDRA_KEYSPACE TBL_POWER (power_values df) st2 of
                       (Inl e, st3) \<Rightarrow> (Inl e, st3)
                     | (Inr u, st3) \<Rightarrow> sync_dates_loop conn h has_pv classic_sync dates st3))))"

definition sync_dates ::
  "sftp \<Rightarrow> string \<Rightarrow> bool \<Rightarrow> timestamp option \<Rightarrow> timestamp \<Rightarrow> timestamp \<Rightarrow> bool \<Rightarrow> store
     \<Rightarrow> (py_error + unit) \<times> store" where
  "sync_dates conn h has_pv last_ts start_date end_date classic_sync st =
     (case sync_dates_loop conn h has_pv classic_sync (date_range start_date end_date) st of
        (Inl e, st') \<Rightarrow> (Inl e, st')
      | (Inr u, st') \<Rightarrow> check_last_ts h end_date last_ts st')"

definition sync_all_days ::
  "sftp \<Rightarrow> string \<Rightarrow> bool \<Rightarrow> timestamp option \<Rightarrow> store \<Rightarrow> (py_error + unit) \<times> store" where
  "sync_all_days conn h has_pv last_ts st =
     (case available_dates conn of
        [] \<Rightarrow> (Inr (), st)
      | d # ds \<Rightarrow>
          sync_dates conn h has_pv last_ts (fold min ds d) (fold max ds d) False st)"

text \<open>
  The range \<open>process_home\<close> selects when \<open>all_days\<close> is off: the start, the end and
  \<open>classic_sync\<close>. \<open>None\<close> is a date the caller did not give.
\<close>

definition select_range ::
  "timestamp option \<Rightarrow> timestamp option \<Rightarrow> timestamp \<Rightarrow> timestamp
     \<Rightarrow> timestamp \<times> timestamp \<times> bool" where
  "select_range start_date end_date last_ts now =
     (case (start_date, end_date) of
        (None, None) \<Rightarrow>
          (if now - last_ts < timedelta_days FROM_FIRST_TS then last_ts
           else now - timedelta_days FROM_FIRST_TS, now, True)
      | (None, Some e) \<Rightarrow> (e - timedelta_days FROM_FIRST_TS, e, False)
      | (Some s, None) \<Rightarrow> (s, now, False)
      | (Some s, Some e) \<Rightarrow> (s, e, False))"

text \<open>
  \<open>process_home\<close>. \<open>ssh\<close> stands for \<open>ssh_sftp_connection\<close>: the session to a host, or
  \<open>None\<close> when the connection raises.
\<close>

definition process_home ::
  "(string \<Rightarrow> sftp option) \<Rightarrow> string \<Rightarrow> bool \<Rightarrow> string option \<Rightarrow> bool
     \<Rightarrow> timestamp option \<Rightarrow> timestamp option \<Rightarrow> timestamp \<Rightarrow> timestamp \<Rightarrow> store
     \<Rightarrow> (py_error + unit) \<times> store" where
  "process_home ssh h has_pv hostname all_days start_date end_date last_ts now st =
     (case hostname of
        None \<Rightarrow> (Inr (), st)
      | Some host \<Rightarrow>
          (case ssh host of
             None \<Rightarrow> (Inl SSHException, st)
           | Some conn \<Rightarrow>
               if all_days then sync_all_days conn h has_pv (Some last_ts) st
               else (case select_range start_date end_date last_ts now of
                       (s, e, classic_sync) \<Rightarrow>
                         sync_dates conn h has_pv (Some last_ts) s e classic_sync st)))"


section \<open>collect\_homewizard\_data.py\<close>

text \<open>
  \<open>save_to_csv\<close> on the readings of one day of a flush window, for one numeric column
  (the source treats every kept column alike): a reading is its timestamp and its value.
  \<open>full_index\<close> is \<open>pd.date_range(start=min, end=max, freq='500ms')\<close>; \<open>reindex\<close> keeps,
  for each label of the new index, the row with that label or a row of NaN, and raises on
  an index with a repeated label; \<open>resample('s').mean()\<close> has one bin per second from
  the second of the first label to the second of the last, and averages the values of a
  bin that are not NaN.
\<close>

definition ns_per_500ms :: int where
  "ns_per_500ms = 500000000"

definition full_index :: "timestamp \<Rightarrow> timestamp \<Rightarrow> timestamp list" where
  "full_index lo hi =
     (if hi < lo then []
      else map (\<lambda>k. lo + int k * ns_per_500ms) [0..<nat ((hi - lo) div ns_per_500ms + 1)])"

definition reindex :: "(timestamp \<times> rat) list \<Rightarrow> timestamp list \<Rightarrow> (timestamp \<times> rat option) list" where
  "reindex data idx = map (\<lambda>l. (l, map_of data l)) idx"

definition mean :: "rat list \<Rightarrow> rat option" where
  "mean xs = (if xs = [] then None else Some (sum_list xs / of_nat (length xs)))"

definition resample_mean :: "(timestamp \<times> rat option) list \<Rightarrow> (timestamp \<times> rat option) list" where
  "resample_mean frame =
     (case frame of
        [] \<Rightarrow> []
      | row # others \<Rightarrow>
          map (\<lambda>k. (floor_s (fst row) + int k * ns_per_s,
                     mean (List.map_filter
                             (\<lambda>(l, v). if floor_s l = floor_s (fst row) + int k * ns_per_s then v
                                        else None) frame)))
            [0..<nat ((floor_s (fst (last frame)) - floor_s (fst row)) div ns_per_s + 1)])"

definition data_resampled :: "(timestamp \<times> rat) list \<Rightarrow> py_error + (timestamp \<times> rat option) list" where
  "data_resampled data =
     (if data = [] then Inl ValueError
      else if \<not> distinct (map fst data) then Inl ValueError
      else Inr (resample_mean
                  (reindex data
                     (full_index (Min (set (map fst data))) (Max (set (map fst data)))))))"

text \<open>
  The file system of the edge site: the rows of each CSV file; the header is written when
  the file is created.
\<close>

definition save_to_csv ::
  "(timestamp \<times> rat) list \<Rightarrow> string \<Rightarrow> string
     \<Rightarrow> (string \<rightharpoonup> (timestamp \<times> rat option) list)
     \<Rightarrow> (py_error + unit) \<times> (string \<rightharpoonup> (timestamp \<times> rat option) list)" where
  "save_to_csv data file_path data_type fs =
     (case data_resampled data of
        Inl e \<Rightarrow> (Inl e, fs)
      | Inr out \<Rightarrow>
          (Inr (),
           fs(file_path @ ''_'' @ data_type @ ''.csv'' \<mapsto>
                (case fs (file_path @ ''_'' @ data_type @ ''.csv'') of
                   None \<Rightarrow> out | Some old \<Rightarrow> old @ out))))"

section \<open>The specification's reading of the resampler\<close>

text \<open>
  The value the specification gives a second of the resampled series: the mean of all
  readings whose timestamp lies in that second, null when there is none.
\<close>

definition second_mean :: "(timestamp \<times> rat) list \<Rightarrow> timestamp \<Rightarrow> rat option" where
  "second_mean data s = mean (map snd (filter (\<lambda>(t, x). floor_s t = s) data))"

section \<open>Properties\<close>

subsection \<open>Whole seconds; the loader leaves the watermark table alone\<close>











subsection \<open>The watermark\<close>



subsection \<open>The range of an incremental pass\<close>

text \<open>
  C3. With \<open>all_days\<close> off and neither a start nor an end date given, the range
  \<open>process_home\<close> hands to \<open>sync_dates\<close> starts at the later of the watermark and now
  minus the look-back horizon of \<open>FROM_FIRST_TS\<close> days, that is at the watermark when now
  minus the watermark is less than the horizon and at now minus the horizon otherwise;
  it ends at now, and the pass is a classic sync.
\<close>

theorem incremental_range:
  "select_range None None last_ts now
     = (max last_ts (now - timedelta_days FROM_FIRST_TS), now, True)
   \<and> process_home ssh h has_pv (Some host) False None None last_ts now st
     = (case ssh host of
          None \<Rightarrow> (Inl SSHException, st)
        | Some conn \<Rightarrow>
            sync_dates conn h has_pv (Some last_ts)
              (if now - last_ts < timedelta_days FROM_FIRST_TS then last_ts
               else now - timedelta_days FROM_FIRST_TS)
              now True st)
   \<and> timedelta_days FROM_FIRST_TS = 4 * 86400 * 1000000000"
  by (auto simp: select_range_def process_home_def timedelta_days_def FROM_FIRST_TS_def
      ns_per_day_def ns_per_s_def split: option.splits)

subsection \<open>A day without its file\<close>



lemma batch_insert_query_no_rows:
  "batch_insert_query ks tbl (cols, []) st = (Inr (), st)"
  by (simp add: batch_insert_query_def batch_insert_query_n_def)

lemma sync_files_missing:
  "files conn (remote_path date h dt) = None
   \<Longrightarrow> sync_files conn h date dt tbl c st = (Inl UnboundLocalError, st)"
  by (simp add: sync_files_def)

lemma sync_files_no_rows:
  "files conn (remote_path date h dt) = Some f \<Longrightarrow> file_rows f = []
   \<Longrightarrow> read_frame h date c f = Inr df
   \<Longrightarrow> sync_files conn h date dt tbl c st = (Inr df, st) \<and> rows df = []"
  by (auto simp: sync_files_def read_frame_def raw_values_def batch_insert_query_no_rows Let_def
      split: if_splits)

text \<open>
  C2. A day whose primary file is absent is to be skipped, the pass going on with the
  days after it. Here the first of three days has a file without rows, the second has no
  file: \<open>sync_files\<close> logs the \<open>FileNotFoundError\<close> and then returns \<open>df\<close>, which was never
  bound; the \<open>UnboundLocalError\<close> leaves \<open>sync_dates\<close>, the third day is not read, and the
  watermark is not written.
\<close>

theorem missing_day_file_ends_the_pass:
  "sync_dates
     \<lparr>files = (\<lambda>p. if p = ''/opt/coomep/data/2024/1/2024_01_01_CDB001_p1.csv''
                    then Some \<lparr>timestamp_name = ''timestamp'', channel_names = [], file_rows = []\<rparr> else None),
      available_dates = []\<rparr>
     ''CDB001'' False (Some 0) 1704067200000000000 1704240000000000000 False st
   = (Inl UnboundLocalError, st)
   \<and> date_range 1704067200000000000 1704240000000000000
     = [1704067200000000000, 1704153600000000000, 1704240000000000000]
   \<and> remote_path 1704153600000000000 ''CDB001'' ''p1''
     = ''/opt/coomep/data/2024/1/2024_01_02_CDB001_p1.csv''"
proof -
  let ?conn = "\<lparr>files = (\<lambda>p. if p = ''/opt/coomep/data/2024/1/2024_01_01_CDB001_p1.csv''
                    then Some \<lparr>timestamp_name = ''timestamp'', channel_names = [], file_rows = []\<rparr> else None),
      available_dates = []\<rparr>"
  have p1: "remote_path 1704067200000000000 ''CDB001'' ''p1''
     = ''/opt/coomep/data/2024/1/2024_01_01_CDB001_p1.csv''"
    by code_simp
  have p2: "remote_path 1704153600000000000 ''CDB001'' ''p1''
     = ''/opt/coomep/data/2024/1/2024_01_02_CDB001_p1.csv''"
    by code_simp
  have dr: "date_range 1704067200000000000 1704240000000000000
     = [1704067200000000000, 1704153600000000000, 1704240000000000000]"
    by code_simp
  have f1: "files ?conn (remote_path 1704067200000000000 ''CDB001'' ''p1'')
              = Some \<lparr>timestamp_name = ''timestamp'', channel_names = [], file_rows = []\<rparr>"
    by (simp add: p1)
  have f2: "files ?conn (remote_path 1704153600000000000 ''CDB001'' ''p1'') = None"
    by (simp add: p2)
  let ?df = "\<lparr>columns = [''timestamp'', ''active_power_w'', ''home_id'', ''day''], rows = []\<rparr>"
  have rf: "read_frame ''CDB001'' 1704067200000000000 False
              \<lparr>timestamp_name = ''timestamp'', channel_names = [], file_rows = []\<rparr> = Inr ?df"
    by (simp add: read_frame_def)
  have d1: "sync_files ?conn ''CDB001'' 1704067200000000000 ''p1'' TBL_RAW_P1 False st
              = (Inr ?df, st)"
    using sync_files_no_rows [OF f1 _ rf] by simp
  have d2: "sync_files ?conn ''CDB001'' 1704153600000000000 ''p1'' TBL_RAW_P1 False st
              = (Inl UnboundLocalError, st)"
    by (rule sync_files_missing [OF f2])
  have e: "final_df ''CDB001'' ?df = Inr []"
    by (simp add: final_df_def)
  have "sync_dates_loop ?conn ''CDB001'' False False
          [1704067200000000000, 1704153600000000000, 1704240000000000000] st
        = (Inl UnboundLocalError, st)"
    by (simp add: d1 d2 e power_values_def batch_insert_query_no_rows del: sftp.simps)
  then show ?thesis
    by (simp add: sync_dates_def dr p2)
qed

subsection \<open>A day file with rows\<close>

text \<open>
  Whatever the day and the home, a day file with a row in it ends \<open>sync_files\<close> with an
  exception and leaves the store as it was: outside a classic sync the first raw row has a
  float after its timestamp text, on which \<open>get_right_format\<close> raises; in a classic sync
  the filter raises before the loader is reached.
\<close>

lemma get_right_format_text_then_float:
  "get_right_format (Str s # Float a # vals) = Inl UnboundLocalError"
  by (simp add: get_right_format_def)

lemma batch_insert_query_raw_rows_raise:
  assumes "rows df \<noteq> []"
  shows "batch_insert_query ks tbl (raw_values df) st = (Inl UnboundLocalError, st)"
proof -
  obtain i r more_rows where rs: "rows df = (i, r) # more_rows"
    using assms by (cases "rows df") auto
  have "get_insert_query ks tbl (columns df)
          ([Str (timestamp r), Float (active_power_w r)] @ map Float (channels r)
           @ [Str (home_id r), Str (day r)])
        = Inl UnboundLocalError"
    by (simp add: get_insert_query_def get_right_format_text_then_float)
  then show ?thesis
    by (simp add: batch_insert_query_def batch_insert_query_n_def raw_values_def rs)
qed

lemma sync_files_rows_raise:
  assumes "files conn (remote_path date h dt) = Some f" and "file_rows f \<noteq> []"
  shows "sync_files conn h date dt tbl False st = (Inl UnboundLocalError, st)"
proof -
  obtain df where df: "read_frame h date False f = Inr df" and r: "rows df \<noteq> []"
    using assms(2) by (simp add: read_frame_def enumerate_eq_zip)
  show ?thesis
    using assms(1) df batch_insert_query_raw_rows_raise [OF r]
    by (simp add: sync_files_def)
qed

lemma sync_files_classic_rows_raise:
  assumes "files conn (remote_path date h dt) = Some f" and "file_rows f \<noteq> []"
  shows "sync_files conn h date dt tbl True st
         = (Inl (if ''timestamp'' \<in> set (timestamp_name f # channel_names f) then TypeError
                 else KeyError), st)"
  using assms by (simp add: sync_files_def read_frame_def enumerate_eq_zip)

text \<open>
  C4. In an incremental pass the rows before the start of the range are to be dropped
  from each fetched frame before it is loaded. \<open>sync_files\<close> writes that filter,
  \<open>df[df['timestamp'] >= date]\<close>, on a column \<open>read_csv\<close> left as text: for a home whose
  watermark is ten seconds old and whose day file has one row, the comparison raises
  \<open>TypeError\<close> (\<open>KeyError\<close> when the first column of the file has no name); the pass ends
  there, no row is loaded and the watermark is not written.
\<close>

theorem classic_sync_raises_on_a_row:
  "process_home
     (\<lambda>host. Some \<lparr>files = (\<lambda>p. Some
               \<lparr>timestamp_name = ''timestamp'', channel_names = [], file_rows = [\<lparr>csv_timestamp = ''2024-01-01 00:00:05'', csv_active_power_w = Some 100, csv_channels = []\<rparr>]\<rparr>),
          available_dates = []\<rparr>)
     ''CDB001'' False (Some ''10.8.0.6'') False None None
     1704067200000000000 1704067210000000000 st
   = (Inl TypeError, st)
   \<and> process_home
     (\<lambda>host. Some \<lparr>files = (\<lambda>p. Some
               \<lparr>timestamp_name = ''Unnamed: 0'', channel_names = [], file_rows = [\<lparr>csv_timestamp = ''2024-01-01 00:00:05'', csv_active_power_w = Some 100, csv_channels = []\<rparr>]\<rparr>),
          available_dates = []\<rparr>)
     ''CDB001'' False (Some ''10.8.0.6'') False None None
     1704067200000000000 1704067210000000000 st
   = (Inl KeyError, st)"
proof -
  have sr: "select_range None None 1704067200000000000 1704067210000000000
            = (1704067200000000000, 1704067210000000000, True)"
    by (simp add: select_range_def timedelta_days_def FROM_FIRST_TS_def ns_per_day_def
        ns_per_s_def)
  have dr: "date_range 1704067200000000000 1704067210000000000 = [1704067200000000000]"
    by (simp add: date_range_def ns_per_day_def ns_per_s_def)
  have a: "sync_files \<lparr>files = (\<lambda>p. Some
               \<lparr>timestamp_name = ''timestamp'', channel_names = [], file_rows = [\<lparr>csv_timestamp = ''2024-01-01 00:00:05'', csv_active_power_w = Some 100, csv_channels = []\<rparr>]\<rparr>),
          available_dates = []\<rparr>
             ''CDB001'' 1704067200000000000 ''p1'' TBL_RAW_P1 True st = (Inl TypeError, st)"
    by (rule trans [OF sync_files_classic_rows_raise]) (simp, simp, simp)
  have b: "sync_files \<lparr>files = (\<lambda>p. Some
               \<lparr>timestamp_name = ''Unnamed: 0'', channel_names = [], file_rows = [\<lparr>csv_timestamp = ''2024-01-01 00:00:05'', csv_active_power_w = Some 100, csv_channels = []\<rparr>]\<rparr>),
          available_dates = []\<rparr>
             ''CDB001'' 1704067200000000000 ''p1'' TBL_RAW_P1 True st = (Inl KeyError, st)"
    by (rule trans [OF sync_files_classic_rows_raise]) (simp, simp, simp)
  show ?thesis
    by (simp add: process_home_def sr sync_dates_def dr a b del: sftp.simps)
qed

text \<open>
  C5. The power derivation is to give one record per second of the primary series, with
  production 0 and net equal to the consumption for a home without production. For such a
  home, a pass over one day whose primary file has one row raises \<open>UnboundLocalError\<close>
  while the raw row is loaded, before \<open>final_df\<close> is built: no power record is derived or
  sent.
\<close>

theorem raw_rows_raise_before_the_power_rows:
  "process_home
     (\<lambda>host. Some \<lparr>files = (\<lambda>p. Some
               \<lparr>timestamp_name = ''timestamp'', channel_names = [], file_rows = [\<lparr>csv_timestamp = ''2024-01-01 00:00:00'', csv_active_power_w = Some 100, csv_channels = []\<rparr>]\<rparr>),
          available_dates = []\<rparr>)
     ''CDB001'' False (Some ''10.8.0.6'') False
     (Some 1704067200000000000) (Some 1704067200000000000) 0 1704240000000000000 st
   = (Inl UnboundLocalError, st)"
proof -
  have dr: "date_range 1704067200000000000 1704067200000000000 = [1704067200000000000]"
    by (simp add: date_range_def ns_per_day_def ns_per_s_def)
  have a: "sync_files \<lparr>files = (\<lambda>p. Some
               \<lparr>timestamp_name = ''timestamp'', channel_names = [], file_rows = [\<lparr>csv_timestamp = ''2024-01-01 00:00:00'', csv_active_power_w = Some 100, csv_channels = []\<rparr>]\<rparr>),
          available_dates = []\<rparr>
             ''CDB001'' 1704067200000000000 ''p1'' TBL_RAW_P1 False st
           = (Inl UnboundLocalError, st)"
    by (rule sync_files_rows_raise) (simp, simp)
  show ?thesis
    by (simp add: process_home_def select_range_def sync_dates_def dr a del: sftp.simps)
qed

text \<open>
  C6. For a home with production, a second of the primary series that the production
  series lacks is to get a null production and a null net. With a primary file of the
  seconds 0 and 1 and a production file of the second 1, the pass raises
  \<open>UnboundLocalError\<close> while the first raw row of the primary file is loaded: the
  production file is not fetched and no power record is derived.
\<close>

theorem production_site_raises_before_the_power_rows:
  "process_home
     (\<lambda>host. Some \<lparr>files = (\<lambda>p.
            if p = ''/opt/coomep/data/2024/1/2024_01_01_CDB001_p1.csv''
            then Some \<lparr>timestamp_name = ''timestamp'', channel_names = [], file_rows = [\<lparr>csv_timestamp = ''2024-01-01 00:00:00'', csv_active_power_w = Some 100, csv_channels = []\<rparr>,
                 \<lparr>csv_timestamp = ''2024-01-01 00:00:01'', csv_active_power_w = Some 200, csv_channels = []\<rparr>]\<rparr>
            else if p = ''/opt/coomep/data/2024/1/2024_01_01_CDB001_pv.csv''
            then Some \<lparr>timestamp_name = ''timestamp'', channel_names = [], file_rows = [\<lparr>csv_timestamp = ''2024-01-01 00:00:01'', csv_active_power_w = Some 50, csv_channels = []\<rparr>]\<rparr>
            else None),
          available_dates = []\<rparr>)
     ''CDB001'' True (Some ''10.8.0.6'') False
     (Some 1704067200000000000) (Some 1704067200000000000) 0 1704240000000000000 st
   = (Inl UnboundLocalError, st)"
proof -
  have dr: "date_range 1704067200000000000 1704067200000000000 = [1704067200000000000]"
    by (simp add: date_range_def ns_per_day_def ns_per_s_def)
  have p: "remote_path 1704067200000000000 ''CDB001'' ''p1''
           = ''/opt/coomep/data/2024/1/2024_01_01_CDB001_p1.csv''"
    by code_simp
  have a: "sync_files \<lparr>files = (\<lambda>p.
            if p = ''/opt/coomep/data/2024/1/2024_01_01_CDB001_p1.csv''
            then Some \<lparr>timestamp_name = ''timestamp'', channel_names = [], file_rows = [\<lparr>csv_timestamp = ''2024-01-01 00:00:00'', csv_active_power_w = Some 100, csv_channels = []\<rparr>,
                 \<lparr>csv_timestamp = ''2024-01-01 00:00:01'', csv_active_power_w = Some 200, csv_channels = []\<rparr>]\<rparr>
            else if p = ''/opt/coomep/data/2024/1/2024_01_01_CDB001_pv.csv''
            then Some \<lparr>timestamp_name = ''timestamp'', channel_names = [], file_rows = [\<lparr>csv_timestamp = ''2024-01-01 00:00:01'', csv_active_power_w = Some 50, csv_channels = []\<rparr>]\<rparr>
            else None),
          available_dates = []\<rparr>
             ''CDB001'' 1704067200000000000 ''p1'' TBL_RAW_P1 False st
           = (Inl UnboundLocalError, st)"
    by (rule sync_files_rows_raise) (simp add: p, simp)
  show ?thesis
    by (simp add: process_home_def select_range_def sync_dates_def dr a del: sftp.simps)
qed

text \<open>
  Behind that, the assignment of \<open>final_df_pv\<close> goes by index label: fed the power rows of
  those two files, it gives the record of second 0 the production of second 1 and the
  record of second 1 none.
\<close>

lemma final_df_pv_takes_the_production_by_label:
  "final_df_pv
     [(0, \<lparr>p_home_id = ''CDB001'', p_day = ''2024-1-1'', p_timestamp = ''2024-01-01 00:00:00'',
           p_cons = Some 100, p_prod = Some 0, p_tot = Some 100\<rparr>),
      (1, \<lparr>p_home_id = ''CDB001'', p_day = ''2024-1-1'', p_timestamp = ''2024-01-01 00:00:01'',
           p_cons = Some 200, p_prod = Some 0, p_tot = Some 200\<rparr>)]
     \<lparr>columns = [''timestamp'', ''active_power_w'', ''home_id'', ''day''],
      rows = [(0, \<lparr>timestamp = ''2024-01-01 00:00:01'', active_power_w = Some 50, channels = [],
                   home_id = ''CDB001'', day = ''2024-1-1''\<rparr>)]\<rparr>
   = [(0, \<lparr>p_home_id = ''CDB001'', p_day = ''2024-1-1'', p_timestamp = ''2024-01-01 00:00:00'',
           p_cons = Some 100, p_prod = Some (- 50), p_tot = Some 50\<rparr>),
      (1, \<lparr>p_home_id = ''CDB001'', p_day = ''2024-1-1'', p_timestamp = ''2024-01-01 00:00:01'',
           p_cons = Some 200, p_prod = None, p_tot = None\<rparr>)]"
  by (simp add: final_df_pv_def series_at_def nan_neg_def nan_add_def)

subsection \<open>The resampler\<close>

lemma mean_same_elements:
  assumes "distinct xs" and "distinct ys" and "set xs = set ys"
  shows "mean (map f xs) = mean (map f ys)"
proof -
  have s: "sum_list (map f xs) = sum_list (map f ys)"
    using assms by (simp add: sum_list_distinct_conv_sum_set)
  have l: "length xs = length ys"
    using assms by (metis distinct_card)
  have e: "xs = [] \<longleftrightarrow> ys = []"
    using l by auto
  show ?thesis using s l e by (simp add: mean_def)
qed

lemma map_filter_reindex:
  "List.map_filter (\<lambda>(l, v). if P l then v else None) (reindex data idx)
   = map (\<lambda>l. the (map_of data l)) (filter (\<lambda>l. P l \<and> map_of data l \<noteq> None) idx)"
  by (induction idx) (auto simp: reindex_def)

lemma values_by_key:
  assumes "distinct (map fst data)"
  shows "map snd (filter (\<lambda>(t, x). P t) data)
         = map (\<lambda>l. the (map_of data l)) (filter P (map fst data))"
proof -
  have "snd p = the (map_of data (fst p))" if "p \<in> set data" for p
    using assms that by (cases p) simp
  then have "map snd (filter (\<lambda>(t, x). P t) data)
             = map (\<lambda>p. the (map_of data (fst p))) (filter (\<lambda>(t, x). P t) data)"
    by (intro map_cong) auto
  also have "\<dots> = map (\<lambda>l. the (map_of data l)) (map fst (filter (\<lambda>(t, x). P t) data))"
    by (simp add: comp_def)
  also have "map fst (filter (\<lambda>(t, x). P t) data) = filter P (map fst data)"
    by (induction data) auto
  finally show ?thesis .
qed

lemma distinct_full_index: "distinct (full_index lo hi)"
proof -
  have "inj_on (\<lambda>k. lo + int k * ns_per_500ms) A" for A
    by (rule inj_onI) (simp add: ns_per_500ms_def)
  then show ?thesis by (simp add: full_index_def distinct_map)
qed

lemma on_grid_in_full_index:
  assumes "lo \<le> t" and "t \<le> hi" and "(t - lo) mod ns_per_500ms = 0"
  shows "t \<in> set (full_index lo hi)"
proof -
  let ?k = "nat ((t - lo) div ns_per_500ms)"
  have c: "0 < ns_per_500ms" by (simp add: ns_per_500ms_def)
  have nn: "0 \<le> (t - lo) div ns_per_500ms"
    using assms(1) c by (simp add: pos_imp_zdiv_nonneg_iff)
  have "ns_per_500ms dvd (t - lo)" using assms(3) by (simp add: mod_eq_0_iff_dvd)
  then have "(t - lo) div ns_per_500ms * ns_per_500ms = t - lo" by (rule dvd_div_mult_self)
  then have t: "t = lo + int ?k * ns_per_500ms" using nn by simp
  have "(t - lo) div ns_per_500ms \<le> (hi - lo) div ns_per_500ms"
    using assms(2) c by (simp add: zdiv_mono1)
  then have k: "?k < nat ((hi - lo) div ns_per_500ms + 1)" using nn by simp
  have "lo \<le> hi" using assms by simp
  then have "full_index lo hi
             = map (\<lambda>k. lo + int k * ns_per_500ms) [0..<nat ((hi - lo) div ns_per_500ms + 1)]"
    by (simp add: full_index_def)
  moreover have "lo + int ?k * ns_per_500ms
                 \<in> set (map (\<lambda>k. lo + int k * ns_per_500ms) [0..<nat ((hi - lo) div ns_per_500ms + 1)])"
  proof -
    have "?k \<in> set [0..<nat ((hi - lo) div ns_per_500ms + 1)]" using k by simp
    then have "(\<lambda>k. lo + int k * ns_per_500ms) ?k
               \<in> (\<lambda>k. lo + int k * ns_per_500ms) ` set [0..<nat ((hi - lo) div ns_per_500ms + 1)]"
      by (rule imageI)
    then show ?thesis by (simp only: set_map)
  qed
  ultimately show ?thesis using t by simp
qed

lemma full_index_ends:
  assumes "lo \<le> hi" and "(hi - lo) mod ns_per_500ms = 0"
  shows "\<exists>more. full_index lo hi = lo # more" and "last (full_index lo hi) = hi"
proof -
  let ?n = "nat ((hi - lo) div ns_per_500ms + 1)"
  have c: "0 < ns_per_500ms" by (simp add: ns_per_500ms_def)
  have nn: "0 \<le> (hi - lo) div ns_per_500ms"
    using assms(1) c by (simp add: pos_imp_zdiv_nonneg_iff)
  then have n: "?n = Suc (nat ((hi - lo) div ns_per_500ms))" by simp
  have f: "full_index lo hi = map (\<lambda>k. lo + int k * ns_per_500ms) [0..<?n]"
    using assms(1) by (simp add: full_index_def)
  have "[0..<?n] = 0 # [1..<?n]" unfolding n by (simp add: upt_rec)
  then show "\<exists>more. full_index lo hi = lo # more" using f by simp
  have "ns_per_500ms dvd (hi - lo)" using assms(2) by (simp add: mod_eq_0_iff_dvd)
  then have m: "(hi - lo) div ns_per_500ms * ns_per_500ms = hi - lo" by (rule dvd_div_mult_self)
  have "last (full_index lo hi) = lo + int (nat ((hi - lo) div ns_per_500ms)) * ns_per_500ms"
    unfolding f n by (simp add: last_map)
  then show "last (full_index lo hi) = hi" using nn m by simp
qed


lemma second_mean_None:
  "second_mean data s = None \<longleftrightarrow> list_all (\<lambda>(t, x). floor_s t \<noteq> s) data"
  by (auto simp: second_mean_def mean_def filter_empty_conv list_all_iff)

lemma resample_mean_nonempty:
  "frame \<noteq> [] \<Longrightarrow>
   resample_mean frame
   = map (\<lambda>k. (floor_s (fst (hd frame)) + int k * ns_per_s,
                mean (List.map_filter
                        (\<lambda>(l, v). if floor_s l = floor_s (fst (hd frame)) + int k * ns_per_s then v
                                   else None) frame)))
       [0..<nat ((floor_s (fst (last frame)) - floor_s (fst (hd frame))) div ns_per_s + 1)]"
  by (cases frame) (simp_all add: resample_mean_def)

text \<open>
  C7, as amended. For the readings of a flush window whose timestamps are distinct and
  lie on the 500 ms grid that starts at the earliest of them (the sampler's ticks do), the
  resampled output has exactly one row per whole second from the second of the earliest
  to the second of the latest reading, one second apart and in increasing order; the
  value of a second is the mean of all readings whose timestamp lies in that second, and
  it is null exactly when no reading lies in it.
\<close>

theorem resampled_seconds_of_readings_on_the_grid:
  assumes "data \<noteq> []"
      and "distinct (map fst data)"
      and "\<forall>t \<in> set (map fst data). (t - Min (set (map fst data))) mod ns_per_500ms = 0"
  shows "data_resampled data
         = Inr (map (\<lambda>k. (floor_s (Min (set (map fst data))) + int k * ns_per_s,
                           second_mean data (floor_s (Min (set (map fst data))) + int k * ns_per_s)))
                  [0..<nat ((floor_s (Max (set (map fst data))) - floor_s (Min (set (map fst data))))
                             div ns_per_s + 1)])
         \<and> (\<forall>s. (second_mean data s = None) = (\<forall>(t, x) \<in> set data. floor_s t \<noteq> s))"
proof -
  let ?keys = "set (map fst data)"
  let ?lo = "Min ?keys" and ?hi = "Max ?keys"
  let ?idx = "full_index ?lo ?hi"
  let ?frame = "reindex data ?idx"
  let ?g = "\<lambda>l. the (map_of data l)"
  have fin: "finite ?keys" and ne: "?keys \<noteq> {}" using assms(1) by auto
  have hi_in: "?hi \<in> ?keys" by (rule Max_in [OF fin ne])
  have lo_hi: "?lo \<le> ?hi" using fin ne by simp
  have hi_grid: "(?hi - ?lo) mod ns_per_500ms = 0" using assms(3) hi_in by blast
  obtain rest where idx: "?idx = ?lo # rest"
    using full_index_ends(1) [OF lo_hi hi_grid] by blast
  have last_idx: "last ?idx = ?hi" by (rule full_index_ends(2) [OF lo_hi hi_grid])
  have idx_ne: "?idx \<noteq> []" using idx by simp
  have frame_ne: "?frame \<noteq> []" using idx_ne by (simp add: reindex_def)
  have hd_idx: "hd ?idx = ?lo" by (simp only: idx list.sel)
  have hd_frame: "fst (hd ?frame) = ?lo"
    using hd_idx idx_ne by (simp add: reindex_def hd_map)
  have last_frame: "fst (last ?frame) = ?hi"
    using last_idx idx_ne by (simp add: reindex_def last_map)
  have sub: "?keys \<subseteq> set ?idx"
  proof
    fix t assume t: "t \<in> ?keys"
    have "?lo \<le> t" and "t \<le> ?hi" using fin t by simp_all
    moreover have "(t - ?lo) mod ns_per_500ms = 0" using assms(3) t by blast
    ultimately show "t \<in> set ?idx" by (rule on_grid_in_full_index)
  qed
  have bin: "mean (List.map_filter (\<lambda>(l, v). if floor_s l = s then v else None) ?frame)
             = second_mean data s" for s
  proof -
    let ?A = "filter (\<lambda>l. floor_s l = s \<and> map_of data l \<noteq> None) ?idx"
    let ?B = "filter (\<lambda>t. floor_s t = s) (map fst data)"
    have dA: "distinct ?A" using distinct_full_index by simp
    have dB: "distinct ?B" using assms(2) by simp
    have "set ?A = {l \<in> set ?idx. floor_s l = s \<and> l \<in> ?keys}"
      by (auto simp: map_of_eq_None_iff)
    also have "\<dots> = {t \<in> ?keys. floor_s t = s}" using sub by auto
    also have "\<dots> = set ?B" by auto
    finally have AB: "set ?A = set ?B" .
    have "List.map_filter (\<lambda>(l, v). if floor_s l = s then v else None) ?frame = map ?g ?A"
      by (rule map_filter_reindex)
    moreover have "map snd (filter (\<lambda>(t, x). floor_s t = s) data) = map ?g ?B"
      by (rule values_by_key [OF assms(2)])
    moreover have "mean (map ?g ?A) = mean (map ?g ?B)"
      by (rule mean_same_elements [OF dA dB AB])
    ultimately show ?thesis by (simp add: second_mean_def)
  qed
  have "resample_mean ?frame
        = map (\<lambda>k. (floor_s ?lo + int k * ns_per_s,
                     mean (List.map_filter
                             (\<lambda>(l, v). if floor_s l = floor_s ?lo + int k * ns_per_s then v
                                        else None) ?frame)))
            [0..<nat ((floor_s ?hi - floor_s ?lo) div ns_per_s + 1)]"
    by (simp only: resample_mean_nonempty [OF frame_ne] hd_frame last_frame)
  then have "resample_mean ?frame
        = map (\<lambda>k. (floor_s ?lo + int k * ns_per_s,
                     second_mean data (floor_s ?lo + int k * ns_per_s)))
            [0..<nat ((floor_s ?hi - floor_s ?lo) div ns_per_s + 1)]"
    by (simp only: bin)
  then have 1: "data_resampled data
         = Inr (map (\<lambda>k. (floor_s ?lo + int k * ns_per_s,
                           second_mean data (floor_s ?lo + int k * ns_per_s)))
                  [0..<nat ((floor_s ?hi - floor_s ?lo) div ns_per_s + 1)])"
    using assms(1,2) by (simp add: data_resampled_def)
  have 2: "\<forall>s. (second_mean data s = None) = (\<forall>(t, x) \<in> set data. floor_s t \<noteq> s)"
    by (simp add: second_mean_None list_all_iff)
  show ?thesis using 1 2 by (rule conjI)
qed

theorem resampled_seconds_of_readings_on_the_grid_witness:
  "[(1500000000, 20), (0, 10), (500000000, 30), (3000000000, 7)] \<noteq> ([] :: (timestamp \<times> rat) list)
   \<and> distinct (map fst ([(1500000000, 20), (0, 10), (500000000, 30), (3000000000, 7)] :: (timestamp \<times> rat) list))
   \<and> list_all (\<lambda>t. (t - Min (set (map fst ([(1500000000, 20), (0, 10), (500000000, 30), (3000000000, 7)] :: (timestamp \<times> rat) list))))
                      mod ns_per_500ms = 0)
        (map fst ([(1500000000, 20), (0, 10), (500000000, 30), (3000000000, 7)] :: (timestamp \<times> rat) list))
   \<and> data_resampled [(1500000000, 20), (0, 10), (500000000, 30), (3000000000, 7)]
       = Inr [(0, Some 20), (1000000000, Some 20), (2000000000, None), (3000000000, Some 7)]"
proof -
  let ?D = "[(1500000000, 20), (0, 10), (500000000, 30), (3000000000, 7)] :: (timestamp \<times> rat) list"
  have h1: "?D \<noteq> []" by simp
  have h2: "distinct (map fst ?D)" by simp
  have h3: "list_all (\<lambda>t. (t - Min (set (map fst ?D))) mod ns_per_500ms = 0) (map fst ?D)"
    by code_simp
  have h3': "\<forall>t \<in> set (map fst ?D). (t - Min (set (map fst ?D))) mod ns_per_500ms = 0"
    using h3 unfolding list_all_iff .
  have r: "Inr (map (\<lambda>k. (floor_s (Min (set (map fst ?D))) + int k * ns_per_s,
                           second_mean ?D (floor_s (Min (set (map fst ?D))) + int k * ns_per_s)))
                  [0..<nat ((floor_s (Max (set (map fst ?D))) - floor_s (Min (set (map fst ?D))))
                             div ns_per_s + 1)])
           = (Inr [(0, Some 20), (1000000000, Some 20), (2000000000, None), (3000000000, Some 7)]
              :: py_error + (timestamp \<times> rat option) list)"
    by code_simp
  have "data_resampled ?D
         = Inr (map (\<lambda>k. (floor_s (Min (set (map fst ?D))) + int k * ns_per_s,
                           second_mean ?D (floor_s (Min (set (map fst ?D))) + int k * ns_per_s)))
                  [0..<nat ((floor_s (Max (set (map fst ?D))) - floor_s (Min (set (map fst ?D))))
                             div ns_per_s + 1)])"
    using resampled_seconds_of_readings_on_the_grid [OF h1 h2 h3'] by (rule conjunct1)
  then have c: "data_resampled ?D
       = Inr [(0, Some 20), (1000000000, Some 20), (2000000000, None), (3000000000, Some 7)]"
    using r by (rule trans)
  show ?thesis using h1 h2 h3 c by blast
qed

text \<open>
  The claim as stated is for every window of readings. A reading 300 ms after the first
  is on no label of the 500 ms index: \<open>reindex\<close> drops it and the mean of second 0 is 10,
  not 15. With readings at 0.9 s and 2.0 s the index ends at 1.9 s: the output has no row
  for second 2, where a reading lies.
\<close>

theorem readings_off_the_grid_are_dropped:
  "data_resampled [(0, 10), (300000000, 20), (1000000000, 30)]
     = Inr [(0, Some 10), (1000000000, Some 30)]
   \<and> second_mean [(0, 10), (300000000, 20), (1000000000, 30)] 0 = Some 15
   \<and> data_resampled [(900000000, 1), (2000000000, 2)] = Inr [(0, Some 1), (1000000000, None)]
   \<and> second_mean [(900000000, 1), (2000000000, 2)] 1000000000 = None
   \<and> second_mean [(900000000, 1), (2000000000, 2)] 2000000000 = Some 2"
  by code_simp

subsection \<open>Formatting the values of a row\<close>

text \<open>
  C10. \<open>get_right_format\<close> is to return, for every list of values, the list of their
  formattings, position by position. It does so for strings and lists of strings only. For
  the values \<open>check_last_ts\<close> inserts, a home and a timestamp, it raises
  \<open>UnboundLocalError\<close>, and so it does for a float; after a list of strings, a timestamp
  raises \<open>AttributeError\<close> and a number is rendered as the last string of that list.
\<close>

theorem get_right_format_reads_the_wrong_variable:
  "get_right_format [Str ''CDB001'', Timestamp 1700000000000000000] = Inl UnboundLocalError
   \<and> get_right_format [Float (Some (3 / 2))] = Inl UnboundLocalError
   \<and> get_right_format [StrList [''a'', ''b''], Timestamp 0] = Inl AttributeError
   \<and> get_right_format [StrList [''a'', ''b''], Integer 7]
       = Inr [[CHR ''['', CHR 0x27, CHR ''a'', CHR 0x27, CHR '','', CHR 0x27, CHR ''b'', CHR 0x27,
               CHR '']''], ''b'']"
  by (simp add: get_right_format_def quote_def)

subsection \<open>The tables\<close>

text \<open>
  C8. The tables of the raw and the derived data are to have the site identifier alone as
  partition key and day, then timestamp, as clustering columns in ascending order. The
  statement \<open>create_table\<close> builds for the power table puts all three columns inside the
  doubled parentheses, which in CQL is the partition key, and writes the clustering order
  before the parenthesis that closes the column list.
\<close>

theorem create_table_power_statement:
  "create_table CASSANDRA_KEYSPACE TBL_POWER
     [''home_id TEXT'', ''day TEXT'', ''timestamp TIMESTAMP'', ''p_cons FLOAT'', ''p_prod FLOAT'',
      ''p_tot FLOAT'']
     [''home_id''] [''day'', ''timestamp''] [(''day'', ''ASC''), (''timestamp'', ''ASC'')]
   = ''CREATE TABLE IF NOT EXISTS test.power (home_id TEXT,day TEXT,timestamp TIMESTAMP,p_cons FLOAT,p_prod FLOAT,p_tot FLOAT, PRIMARY KEY ((home_id,day,timestamp))WITH CLUSTERING ORDER BY (day ASC,timestamp ASC));''"
  by (simp add: create_table_def get_ordering_def CASSANDRA_KEYSPACE_def TBL_POWER_def)

subsection \<open>The batch loader\<close>

text \<open>
  The grouping itself, for rows that \<open>get_insert_query\<close> formats (\<open>qs\<close> are their
  queries) and a batch size \<open>n > 0\<close>: the loader sends the queries in order, in
  \<open>ceil(M / n)\<close> batches of \<open>n\<close> queries each, but for the last, which holds the
  \<open>M mod n\<close> left over when there are any.
\<close>

lemma batch_insert_loop_groups:
  assumes "0 < n"
      and "map (get_insert_query ks tbl cols) rws = map Inr qs"
      and "length pend = i mod n"
  shows "\<exists>bs pend'.
           batch_insert_loop n ks tbl cols rws i pend st
             = (Inr pend', st\<lparr>executed := executed st @ map batch_query bs\<rparr>)
         \<and> concat bs @ pend' = pend @ qs
         \<and> list_all (\<lambda>b. length b = n) bs
         \<and> length pend' = (i + length rws) mod n"
  using assms(2,3)
proof (induction rws arbitrary: i pend st qs)
  case Nil
  then have "qs = []" by simp
  then show ?case
    using Nil.prems(2)
    by (intro exI [where x = "[]"] exI [where x = pend]) simp
next
  case (Cons row rws)
  from Cons.prems(1) obtain q qs' where qs: "qs = q # qs'"
    and q: "get_insert_query ks tbl cols row = Inr q"
    and rest: "map (get_insert_query ks tbl cols) rws = map Inr qs'"
    by (cases qs) auto
  have n0: "n \<noteq> 0" using assms(1) by simp
  show ?case
  proof (cases "(i + 1) mod n = 0")
    case True
    then have full: "length (pend @ [q]) = n"
      using Cons.prems(2) assms(1) by (simp add: mod_Suc split: if_splits)
    let ?st = "execute (batch_query (pend @ [q])) st"
    have "length ([] :: string list) = (i + 1) mod n" using True by simp
    from Cons.IH [OF rest this, of ?st]
    obtain bs pend' where
      l: "batch_insert_loop n ks tbl cols rws (i + 1) [] ?st
            = (Inr pend', ?st\<lparr>executed := executed ?st @ map batch_query bs\<rparr>)"
      and c: "concat bs @ pend' = [] @ qs'"
      and a: "list_all (\<lambda>b. length b = n) bs"
      and p: "length pend' = (i + 1 + length rws) mod n"
      by blast
    have st: "?st\<lparr>executed := executed ?st @ map batch_query bs\<rparr>
              = st\<lparr>executed := executed st @ map batch_query ((pend @ [q]) # bs)\<rparr>"
      by (simp add: execute_def)
    have "batch_insert_loop n ks tbl cols (row # rws) i pend st
            = (Inr pend', st\<lparr>executed := executed st @ map batch_query ((pend @ [q]) # bs)\<rparr>)"
      using q n0 True l st by simp
    moreover have "concat ((pend @ [q]) # bs) @ pend' = pend @ qs" using c qs by simp
    moreover have "list_all (\<lambda>b. length b = n) ((pend @ [q]) # bs)" using a full by simp
    moreover have "length pend' = (i + length (row # rws)) mod n" using p by (simp add: add.commute)
    ultimately show ?thesis by blast
  next
    case False
    then have "length (pend @ [q]) = (i + 1) mod n"
      using Cons.prems(2) assms(1) by (simp add: mod_Suc split: if_splits)
    from Cons.IH [OF rest this, of st]
    obtain bs pend' where
      l: "batch_insert_loop n ks tbl cols rws (i + 1) (pend @ [q]) st
            = (Inr pend', st\<lparr>executed := executed st @ map batch_query bs\<rparr>)"
      and c: "concat bs @ pend' = (pend @ [q]) @ qs'"
      and a: "list_all (\<lambda>b. length b = n) bs"
      and p: "length pend' = (i + 1 + length rws) mod n"
      by blast
    have "batch_insert_loop n ks tbl cols (row # rws) i pend st
            = (Inr pend', st\<lparr>executed := executed st @ map batch_query bs\<rparr>)"
      using q n0 False l by simp
    moreover have "concat bs @ pend' = pend @ qs" using c qs by simp
    moreover have "length pend' = (i + length (row # rws)) mod n" using p by (simp add: add.commute)
    ultimately show ?thesis using a by blast
  qed
qed

lemma length_concat_same:
  "list_all (\<lambda>b. length b = n) bs \<Longrightarrow> length (concat bs) = length bs * n"
  by (induction bs) auto

lemma ceil_div_exact: "0 < (n :: nat) \<Longrightarrow> (k * n + n - 1) div n = k"
proof -
  assume n: "0 < n"
  have "(k * n + n - 1) div n = (n - 1 + k * n) div n" using n by (simp add: add.commute)
  also have "\<dots> = (n - 1) div n + k" using n by (subst div_mult_self1) auto
  finally show ?thesis using n by simp
qed

lemma ceil_div_rest:
  "0 < (n :: nat) \<Longrightarrow> 0 < r \<Longrightarrow> r < n \<Longrightarrow> (k * n + r + n - 1) div n = Suc k"
proof -
  assume n: "0 < n" and r: "0 < r" "r < n"
  have "k * n + r + n - 1 = r - 1 + Suc k * n" using n r by (simp add: algebra_simps)
  then have "(k * n + r + n - 1) div n = (r - 1 + Suc k * n) div n" by simp
  also have "\<dots> = (r - 1) div n + Suc k" using n by (subst div_mult_self1) auto
  finally show ?thesis using n r by simp
qed

lemma batch_insert_query_n_groups:
  assumes "0 < n"
      and "map (get_insert_query ks tbl cols) rws = map Inr qs"
  shows "\<exists>bs. batch_insert_query_n n ks tbl (cols, rws) st
               = (Inr (), st\<lparr>executed := executed st @ map batch_query bs\<rparr>)
         \<and> concat bs = qs
         \<and> length bs = (length rws + n - 1) div n
         \<and> list_all (\<lambda>b. b \<noteq> [] \<and> length b \<le> n) bs
         \<and> list_all (\<lambda>b. length b = n) (butlast bs)
         \<and> (if 0 < length rws mod n then length (last bs) = length rws mod n else True)"
proof -
  have lq: "length qs = length rws" using assms(2) by (metis length_map)
  have "length ([] :: string list) = 0 mod n" by simp
  from batch_insert_loop_groups [OF assms(1,2) this, of st]
  obtain bs pend' where
    l: "batch_insert_loop n ks tbl cols rws 0 [] st
          = (Inr pend', st\<lparr>executed := executed st @ map batch_query bs\<rparr>)"
    and c: "concat bs @ pend' = qs"
    and a: "list_all (\<lambda>b. length b = n) bs"
    and p: "length pend' = length rws mod n"
    by auto
  have len: "length bs * n + length pend' = length rws"
    using c lq length_concat_same [OF a] by (metis length_append)
  have a': "list_all (\<lambda>b. b \<noteq> [] \<and> length b \<le> n) bs"
    using a assms(1) by (auto simp: list_all_iff)
  show ?thesis
  proof (cases "pend' = []")
    case True
    then have r: "batch_insert_query_n n ks tbl (cols, rws) st
                  = (Inr (), st\<lparr>executed := executed st @ map batch_query bs\<rparr>)"
      using l by (simp add: batch_insert_query_n_def)
    have "length rws = length bs * n" using len True by simp
    then have k: "length bs = (length rws + n - 1) div n"
      using ceil_div_exact [OF assms(1), of "length bs"] by simp
    have b: "list_all (\<lambda>b. length b = n) (butlast bs)"
      using a by (auto simp: list_all_iff dest: in_set_butlastD)
    have "length rws mod n = 0" using p True by simp
    then show ?thesis using r c True k a' b by (intro exI [where x = bs]) simp
  next
    case False
    let ?bs = "bs @ [pend']"
    have "(st\<lparr>executed := executed st @ map batch_query bs\<rparr>)
            \<lparr>executed := executed (st\<lparr>executed := executed st @ map batch_query bs\<rparr>)
                           @ [batch_query pend']\<rparr>
          = st\<lparr>executed := executed st @ map batch_query ?bs\<rparr>"
      by simp
    then have r: "batch_insert_query_n n ks tbl (cols, rws) st
                  = (Inr (), st\<lparr>executed := executed st @ map batch_query ?bs\<rparr>)"
      using l False by (simp add: batch_insert_query_n_def execute_def)
    have pl1: "0 < length pend'" using False by simp
    have pl2: "length pend' < n" using p assms(1) by simp
    note pl = pl1 pl2
    have k: "length ?bs = (length rws + n - 1) div n"
      using ceil_div_rest [OF assms(1) pl, of "length bs"] len by simp
    have a2: "list_all (\<lambda>b. b \<noteq> [] \<and> length b \<le> n) ?bs"
      using a' False pl by simp
    have "0 < length rws mod n" using p pl by simp
    then show ?thesis
      using r c k a2 a p by (intro exI [where x = ?bs]) simp
  qed
qed

text \<open>
  C9. The batch loader is to send every sequence of rows in groups of at most
  \<open>INSERTS_PER_BATCH\<close>. On a frame of one row with a float in it (every row of a day file
  and of the power table has one) it raises \<open>UnboundLocalError\<close> out of
  \<open>get_right_format\<close> and sends nothing.
\<close>

theorem batch_insert_query_raises_on_a_float:
  "batch_insert_query CASSANDRA_KEYSPACE TBL_POWER
     ([''home_id'', ''p_cons''], [[Str ''CDB001'', Float (Some (3 / 2))]]) st
   = (Inl UnboundLocalError, st)"
  by (simp add: batch_insert_query_def batch_insert_query_n_def get_insert_query_def
      get_right_format_def)

end
